theory Spec2Isabelle
  imports Main "HOL-Library.Sublist"
begin

section \<open>Python string operations used by the scraper\<close>

text \<open>
  Python strings are modelled as \<open>string\<close> (lists of 8-bit characters), so the model
  covers ASCII text; \<open>str.lower\<close> maps \<open>A\<close>..\<open>Z\<close> to \<open>a\<close>..\<open>z\<close> and leaves every other
  character alone.
\<close>

definition lower_char :: "char \<Rightarrow> char" where
  "lower_char c =
     (case map_of (zip ''ABCDEFGHIJKLMNOPQRSTUVWXYZ'' ''abcdefghijklmnopqrstuvwxyz'') c of
        Some d \<Rightarrow> d
      | None \<Rightarrow> c)"

definition lower :: "string \<Rightarrow> string" where
  "lower s = map lower_char s"

text \<open>\<open>sub in s\<close>: \<open>sub\<close> occurs in \<open>s\<close> as a contiguous run of characters.\<close>

fun contains :: "string \<Rightarrow> string \<Rightarrow> bool" where
  "contains sub [] = (sub = [])"
| "contains sub (c # cs) = (prefix sub (c # cs) \<or> contains sub cs)"

text \<open>\<open>sep.join(xs)\<close>.\<close>

fun join :: "string \<Rightarrow> string list \<Rightarrow> string" where
  "join sep [] = []"
| "join sep [x] = x"
| "join sep (x # y # ys) = x @ sep @ join sep (y # ys)"

text \<open>
  \<open>s.split(", ")\<close>: the text is cut at every occurrence of a comma followed by a
  space, scanning from the left; \<open>cur\<close> is the piece read so far. The result always
  has at least one piece.
\<close>

fun split_comma :: "string \<Rightarrow> string \<Rightarrow> string list" where
  "split_comma cur [] = [cur]"
| "split_comma cur [c] = [cur @ [c]]"
| "split_comma cur (c # d # cs) =
     (if c = CHR '','' \<and> d = CHR '' '' then cur # split_comma [] cs
      else split_comma (cur @ [c]) (d # cs))"

section \<open>Cards and records\<close>

text \<open>
  A card is a parsed fragment of the page. The scraper only looks at it through a few
  BeautifulSoup queries, so a card is modelled by what these queries give:
  \<^item> \<open>title_link\<close>: \<open>card.find("a", class_=...)\<close> for the title link; \<open>Some t\<close> when an
    element is found, \<open>t\<close> being its \<open>get_text(strip=True)\<close>;
  \<^item> \<open>heading3\<close>, \<open>heading2\<close>: the same for \<open>card.find("h3")\<close> and \<open>card.find("h2")\<close>;
  \<^item> \<open>description_box\<close>: the same for the description container;
  \<^item> \<open>category_container\<close>: \<open>Some (a, b)\<close> when the category container is found, \<open>a\<close>
    the stripped texts of its \<open>text-block-53\<close> divisions and \<open>b\<close> those of its
    \<open>black-text-db-gc\<close> divisions, in document order;
  \<^item> \<open>tag_links\<close>: the stripped texts of the anchors whose \<open>href\<close> contains \<open>?tags=\<close>;
  \<^item> \<open>all_text\<close>: \<open>card.get_text()\<close>;
  \<^item> \<open>tools_href\<close>: the \<open>href\<close> of the first anchor whose \<open>href\<close> starts with
    \<open>/tools/\<close>;
  \<^item> \<open>faulty\<close>: one of the queries raises an exception on this card.
  A found element is a BeautifulSoup tag, which is true in a condition whatever its
  content, so \<open>if name_elem\<close> is the test \<open>name_elem \<noteq> None\<close>.
\<close>

record card =
  faulty :: bool
  title_link :: "string option"
  heading3 :: "string option"
  heading2 :: "string option"
  description_box :: "string option"
  category_container :: "(string list \<times> string list) option"
  tag_links :: "string list"
  all_text :: string
  tools_href :: "string option"

text \<open>The dictionary \<open>tool_data\<close> that \<open>_parse_tool_card\<close> returns, one field per key.\<close>

record tool =
  name :: string
  description :: string
  categories :: string
  pricing :: string
  url :: string
  scraped_at :: string

datatype exn = Exception

definition BASE_URL :: string where
  "BASE_URL = ''https://www.futuretools.io''"

text \<open>
  The two category loops: each appends a label that is not empty (and, for the link
  fallback, not one of \<open>''\<close>, \<open>'category'\<close>) and not yet in the list.
\<close>

fun add_category_divs :: "string list \<Rightarrow> string list \<Rightarrow> string list" where
  "add_category_divs [] cats = cats"
| "add_category_divs (cat_text # rest) cats =
     add_category_divs rest
       (if cat_text \<noteq> [] \<and> cat_text \<notin> set cats then cats @ [cat_text] else cats)"

fun add_category_links :: "string list \<Rightarrow> string list \<Rightarrow> string list" where
  "add_category_links [] cats = cats"
| "add_category_links (cat_text # rest) cats =
     add_category_links rest
       (if cat_text \<noteq> [] \<and> cat_text \<notin> set ['''', ''category''] \<and> cat_text \<notin> set cats
        then cats @ [cat_text] else cats)"

definition extract_categories :: "card \<Rightarrow> string list" where
  "extract_categories c =
     (let cats =
        (case category_container c of
           None \<Rightarrow> []
         | Some (block53, black_text) \<Rightarrow>
             add_category_divs (if block53 \<noteq> [] then block53 else black_text) [])
      in if cats = [] then add_category_links (tag_links c) [] else cats)"

text \<open>The keyword dictionary, in the order in which Python iterates over it.\<close>

definition pricing_keywords :: "(string \<times> string) list" where
  "pricing_keywords =
     [(''paid'', ''Paid''),
      (''free trial'', ''Free Trial''),
      (''freemium'', ''Freemium''),
      (''open source'', ''Open Source''),
      (''github'', ''GitHub'')]"

fun match_keywords :: "string \<Rightarrow> (string \<times> string) list \<Rightarrow> string list \<Rightarrow> string list" where
  "match_keywords txt [] found = found"
| "match_keywords txt ((keyword, label) # rest) found =
     match_keywords txt rest
       (if contains keyword txt \<and> label \<notin> set found then found @ [label] else found)"

definition extract_pricing :: "card \<Rightarrow> string list" where
  "extract_pricing c =
     (let txt = lower (all_text c);
          found = match_keywords txt pricing_keywords []
      in if found = [] \<and> contains ''free'' txt \<and> \<not> contains ''free trial'' txt
         then found @ [''Free''] else found)"

text \<open>
  The name element: the title link, else the first \<open>h3\<close>, else the first \<open>h2\<close>. The
  result is the stripped text of the element that was found.
\<close>

definition find_name_elem :: "card \<Rightarrow> string option" where
  "find_name_elem c =
     (case title_link c of
        Some e \<Rightarrow> Some e
      | None \<Rightarrow> (case heading3 c of Some e \<Rightarrow> Some e | None \<Rightarrow> heading2 c))"

definition extract_description :: "card \<Rightarrow> string" where
  "extract_description c = (case description_box c of Some d \<Rightarrow> d | None \<Rightarrow> [])"

definition extract_url :: "card \<Rightarrow> string" where
  "extract_url c =
     (case tools_href c of
        Some href \<Rightarrow> (if href \<noteq> [] then BASE_URL @ href else [])
      | None \<Rightarrow> [])"

definition categories_field :: "string list \<Rightarrow> string" where
  "categories_field cats = (if cats \<noteq> [] then join '', '' cats else ''Uncategorized'')"

definition pricing_field :: "string list \<Rightarrow> string" where
  "pricing_field prices = (if prices \<noteq> [] then join '', '' prices else ''Check tool page'')"

text \<open>The labels that the pricing field is made of.\<close>

definition PRICING_LABELS :: "string list" where
  "PRICING_LABELS =
     [''Paid'', ''Free Trial'', ''Freemium'', ''Open Source'', ''GitHub'', ''Free'']"

text \<open>
  The body of the \<open>try\<close> block of \<open>_parse_tool_card\<close>: \<open>Inl\<close> when an exception is
  raised, \<open>Inr None\<close> for the early \<open>return None\<close>, \<open>Inr (Some tool_data)\<close> otherwise.
  \<open>now\<close> is the reading of the clock, \<open>datetime.now()\<close> formatted.
\<close>

definition parse_tool_card_body :: "string \<Rightarrow> card \<Rightarrow> exn + tool option" where
  "parse_tool_card_body now c =
     (if faulty c then Inl Exception
      else
        case find_name_elem c of
          None \<Rightarrow> Inr None
        | Some name_text \<Rightarrow>
            Inr (Some \<lparr>
              name = name_text,
              description = extract_description c,
              categories = categories_field (extract_categories c),
              pricing = pricing_field (extract_pricing c),
              url = extract_url c,
              scraped_at = now \<rparr>))"

text \<open>\<open>_parse_tool_card\<close>: the \<open>except Exception\<close> clause turns an exception into \<open>None\<close>.\<close>

definition parse_tool_card :: "string \<Rightarrow> card \<Rightarrow> tool option" where
  "parse_tool_card now c =
     (case parse_tool_card_body now c of Inl e \<Rightarrow> None | Inr r \<Rightarrow> r)"

text \<open>A card with nothing in it, to build examples from.\<close>

definition blank_card :: card where
  "blank_card =
     \<lparr> faulty = False, title_link = None, heading3 = None, heading2 = None,
       description_box = None, category_container = None, tag_links = [],
       all_text = [], tools_href = None \<rparr>"

section \<open>Locating and extracting the cards of a page\<close>

text \<open>
  The parsed page (\<open>soup\<close>), seen through the five \<open>find_all\<close> queries of the scrape
  methods, each giving the matching fragments in document order. The queries are joined
  by \<open>or\<close>, so the first one with any match is used alone.
\<close>

record document =
  dyn_item_divs :: "card list"
  tool_card_divs :: "card list"
  tool_item_divs :: "card list"
  collection_item_divs :: "card list"
  articles :: "card list"

definition find_tool_cards :: "document \<Rightarrow> card list" where
  "find_tool_cards soup =
     (if dyn_item_divs soup \<noteq> [] then dyn_item_divs soup
      else if tool_card_divs soup \<noteq> [] then tool_card_divs soup
      else if tool_item_divs soup \<noteq> [] then tool_item_divs soup
      else if collection_item_divs soup \<noteq> [] then collection_item_divs soup
      else articles soup)"

text \<open>
  The loop \<open>for card in tool_cards\<close> of \<open>scrape_newly_added\<close> and \<open>scrape_all_tools\<close>.
  \<open>clock i\<close> is what the clock reads while card number \<open>i\<close> is parsed. A returned
  dictionary has six keys, so \<open>if tool_data\<close> holds exactly when the result is not \<open>None\<close>.
\<close>

fun parse_cards :: "(nat \<Rightarrow> string) \<Rightarrow> nat \<Rightarrow> card list \<Rightarrow> tool list \<Rightarrow> tool list" where
  "parse_cards clock i [] tools = tools"
| "parse_cards clock i (c # rest) tools =
     parse_cards clock (Suc i) rest
       (case parse_tool_card (clock i) c of
          Some tool_data \<Rightarrow> tools @ [tool_data]
        | None \<Rightarrow> tools)"

definition CATEGORIES :: "string list" where
  "CATEGORIES =
     [''AI Detection'', ''Aggregators'', ''Automation & Agents'', ''Avatar'', ''Chat'',
      ''Copywriting'', ''Finance'', ''For Fun'', ''Gaming'', ''Generative Art'',
      ''Generative Code'', ''Generative Video'', ''Image Improvement'', ''Image Scanning'',
      ''Inspiration'', ''Marketing'', ''Motion Capture'', ''Music'', ''Podcasting'',
      ''Productivity'', ''Prompt Guides'', ''Research'', ''Self-Improvement'',
      ''Social Media'', ''Speech-To-Text'', ''Text-To-Speech'', ''Translation'',
      ''Video Editing'', ''Voice Modulation'']"

text \<open>\<open>any(x in wanted for x in labels)\<close>.\<close>

definition any_in :: "string list \<Rightarrow> string list \<Rightarrow> bool" where
  "any_in wanted labels = list_ex (\<lambda>x. x \<in> set wanted) labels"

text \<open>
  The two filters of \<open>scrape_by_category\<close>, for a record that was extracted: \<open>False\<close>
  is \<open>continue\<close>, \<open>True\<close> reaches \<open>all_tools.append\<close>. \<open>cats\<close> is the \<open>categories\<close>
  variable after its default has been filled in. A list is true in a condition when it
  is not empty, and \<open>None\<close> is false.
\<close>

definition keeps :: "string list \<Rightarrow> string list option \<Rightarrow> tool \<Rightarrow> bool" where
  "keeps cats pricing_filters tool_data =
     (if cats \<noteq> [] \<and> cats \<noteq> CATEGORIES \<and>
         \<not> any_in cats (split_comma [] (categories tool_data))
      then False
      else
        (case pricing_filters of
           None \<Rightarrow> True
         | Some wanted \<Rightarrow>
             if wanted \<noteq> [] \<and> \<not> any_in wanted (split_comma [] (pricing tool_data))
             then False else True))"

fun filter_cards ::
  "(nat \<Rightarrow> string) \<Rightarrow> string list \<Rightarrow> string list option \<Rightarrow> nat \<Rightarrow> card list \<Rightarrow>
   tool list \<Rightarrow> tool list" where
  "filter_cards clock cats pricing_filters i [] all_tools = all_tools"
| "filter_cards clock cats pricing_filters i (c # rest) all_tools =
     filter_cards clock cats pricing_filters (Suc i) rest
       (case parse_tool_card (clock i) c of
          Some tool_data \<Rightarrow>
            if keeps cats pricing_filters tool_data then all_tools @ [tool_data] else all_tools
        | None \<Rightarrow> all_tools)"

section \<open>The browser session\<close>

text \<open>
  The Selenium driver is outside the program, so its behaviour is a parameter: a record
  of operations on the state \<open>'b\<close> of a browser session. An operation gives \<open>None\<close> when
  the call raises an exception.
  \<^item> \<open>launch\<close>: \<open>webdriver.Chrome(...)\<close> with what \<open>_setup_driver\<close> does before it;
  \<^item> \<open>navigate url\<close>: \<open>driver.get(url)\<close> and the sleep after it;
  \<^item> \<open>scroll_to_bottom\<close>: the \<open>window.scrollTo\<close> script and the sleep after it;
  \<^item> \<open>scroll_height\<close>: the script that reads \<open>document.body.scrollHeight\<close>;
  \<^item> \<open>find_load_more\<close>: \<open>find_elements\<close> with the XPath of the "Next Page" and
    "Load More" controls, in document order;
  \<^item> \<open>click_first\<close>: \<open>load_more_buttons[0].click()\<close> and the sleep after it;
  \<^item> \<open>page_source\<close>: \<open>driver.page_source\<close> parsed by BeautifulSoup.
  An element carries what its \<open>is_displayed()\<close> gives. \<open>driver.quit()\<close> is taken to
  return normally: Selenium's Chrome driver suppresses the errors of its own shutdown.
\<close>

datatype element = Element (is_displayed: "bool option")

record 'b browser =
  launch :: "'b option"
  navigate :: "string \<Rightarrow> 'b \<Rightarrow> 'b option"
  scroll_to_bottom :: "'b \<Rightarrow> 'b option"
  scroll_height :: "'b \<Rightarrow> int option"
  find_load_more :: "'b \<Rightarrow> element list option"
  click_first :: "'b \<Rightarrow> 'b option"
  page_source :: "'b \<Rightarrow> document option"

text \<open>What the scroll loop did to the page, in order: a record kept for the proofs.\<close>

datatype event = Scrolled | Clicked

text \<open>
  The inner \<open>try\<close> block of the scroll loop, entered when the height has not changed
  three times in a row: \<open>Break\<close> leaves the loop (the \<open>else\<close> branch, or the bare
  \<open>except\<close>), \<open>Resume\<close> goes on with the height read after the click.
\<close>

datatype 'b stalled = Break 'b "event list" | Resume int 'b

definition try_load_more :: "'b browser \<Rightarrow> 'b \<Rightarrow> 'b stalled" where
  "try_load_more drv b =
     (case find_load_more drv b of
        None \<Rightarrow> Break b []
      | Some [] \<Rightarrow> Break b []
      | Some (button # others) \<Rightarrow>
          (case is_displayed button of
             None \<Rightarrow> Break b []
           | Some False \<Rightarrow> Break b []
           | Some True \<Rightarrow>
               (case click_first drv b of
                  None \<Rightarrow> Break b []
                | Some b' \<Rightarrow>
                    (case scroll_height drv b' of
                       None \<Rightarrow> Break b' [Clicked]
                     | Some new_height \<Rightarrow> Resume new_height b'))))"

text \<open>
  The \<open>while\<close> loop of \<open>_scroll_to_load_all\<close>. The result is the list of events and the
  state of the session when the method returns, or \<open>None\<close> when an exception leaves it.
\<close>

function scroll_loop ::
  "'b browser \<Rightarrow> int \<Rightarrow> int \<Rightarrow> int \<Rightarrow> int \<Rightarrow> 'b \<Rightarrow> event list \<Rightarrow> event list \<times> 'b option" where
  "scroll_loop drv max_scrolls last_height scrolls no_change_count b tr =
     (if scrolls < max_scrolls then
        (case scroll_to_bottom drv b of
           None \<Rightarrow> (tr, None)
         | Some b1 \<Rightarrow>
             (case scroll_height drv b1 of
                None \<Rightarrow> (tr @ [Scrolled], None)
              | Some new_height \<Rightarrow>
                  if new_height = last_height then
                    if no_change_count + 1 \<ge> 3 then
                      (case try_load_more drv b1 of
                         Break b2 evs \<Rightarrow> (tr @ [Scrolled] @ evs, Some b2)
                       | Resume new_height' b2 \<Rightarrow>
                           scroll_loop drv max_scrolls new_height' (scrolls + 1) 0 b2
                             (tr @ [Scrolled, Clicked]))
                    else
                      scroll_loop drv max_scrolls new_height (scrolls + 1)
                        (no_change_count + 1) b1 (tr @ [Scrolled])
                  else
                    scroll_loop drv max_scrolls new_height (scrolls + 1) 0 b1
                      (tr @ [Scrolled])))
      else (tr, Some b))"
  by pat_completeness auto
termination
  by (relation "measure (\<lambda>(drv, max_scrolls, last_height, scrolls, no_change_count, b, tr).
        nat (max_scrolls - scrolls))") auto

declare scroll_loop.simps [simp del]

definition scroll_to_load_all :: "'b browser \<Rightarrow> int \<Rightarrow> 'b \<Rightarrow> event list \<times> 'b option" where
  "scroll_to_load_all drv max_scrolls b =
     (case scroll_height drv b of
        None \<Rightarrow> ([], None)
      | Some last_height \<Rightarrow> scroll_loop drv max_scrolls last_height 0 0 b [])"

section \<open>The scrape methods\<close>

text \<open>
  The scraper object: \<open>driver\<close> is the field \<open>self.driver\<close>, \<open>None\<close> or a live session.
  \<open>started\<close> and \<open>stopped\<close> count the sessions launched and quit so far; the program
  does not have them, the proofs do.
\<close>

record 'b scraper =
  driver :: "'b option"
  started :: nat
  stopped :: nat

definition init :: "'b scraper" where
  "init = \<lparr> driver = None, started = 0, stopped = 0 \<rparr>"

definition close_driver :: "'b scraper \<Rightarrow> 'b scraper" where
  "close_driver s =
     (case driver s of
        None \<Rightarrow> s
      | Some b \<Rightarrow> s\<lparr> driver := None, stopped := stopped s + 1 \<rparr>)"

definition NEWLY_ADDED_URL :: string where
  "NEWLY_ADDED_URL = BASE_URL @ ''/newly-added''"

text \<open>
  The first part of the \<open>try\<close> block, which the three methods share line for line:
  \<open>_setup_driver\<close>, \<open>driver.get\<close>, \<open>_scroll_to_load_all\<close>, and the page parsed. The
  first component is \<open>Inl\<close> when an exception was raised, the second is the scraper
  at that moment.
\<close>

definition load_page ::
  "'b browser \<Rightarrow> string \<Rightarrow> int \<Rightarrow> 'b scraper \<Rightarrow> (exn + document) \<times> 'b scraper" where
  "load_page drv target max_scrolls s =
     (case launch drv of
        None \<Rightarrow> (Inl Exception, s)
      | Some b0 \<Rightarrow>
          let s0 = s\<lparr> driver := Some b0, started := started s + 1 \<rparr> in
          (case navigate drv target b0 of
             None \<Rightarrow> (Inl Exception, s0)
           | Some b1 \<Rightarrow>
               (case snd (scroll_to_load_all drv max_scrolls b1) of
                  None \<Rightarrow> (Inl Exception, s0\<lparr> driver := Some b1 \<rparr>)
                | Some b2 \<Rightarrow>
                    (case page_source drv b2 of
                       None \<Rightarrow> (Inl Exception, s0\<lparr> driver := Some b2 \<rparr>)
                     | Some soup \<Rightarrow> (Inr soup, s0\<lparr> driver := Some b2 \<rparr>)))))"

text \<open>
  The three entry points. The \<open>except Exception\<close> clause only prints, and the list of
  records is still empty when \<open>load_page\<close> raises; the \<open>finally\<close> clause closes the
  driver. The result is \<open>Inr\<close> of the returned list, or \<open>Inl\<close> if an exception reached
  the caller.
\<close>

definition scrape_newly_added ::
  "'b browser \<Rightarrow> (nat \<Rightarrow> string) \<Rightarrow> 'b scraper \<Rightarrow> (exn + tool list) \<times> 'b scraper" where
  "scrape_newly_added drv clock s =
     (case load_page drv NEWLY_ADDED_URL 10 s of
        (Inl e, s1) \<Rightarrow> (Inr [], close_driver s1)
      | (Inr soup, s1) \<Rightarrow>
          (Inr (parse_cards clock 0 (find_tool_cards soup) []), close_driver s1))"

definition scrape_by_category ::
  "'b browser \<Rightarrow> (nat \<Rightarrow> string) \<Rightarrow> string list option \<Rightarrow> string list option \<Rightarrow>
   'b scraper \<Rightarrow> (exn + tool list) \<times> 'b scraper" where
  "scrape_by_category drv clock categories_arg pricing_filters s =
     (let cats = (case categories_arg of None \<Rightarrow> CATEGORIES | Some given \<Rightarrow> given) in
      case load_page drv BASE_URL 100 s of
        (Inl e, s1) \<Rightarrow> (Inr [], close_driver s1)
      | (Inr soup, s1) \<Rightarrow>
          (Inr (filter_cards clock cats pricing_filters 0 (find_tool_cards soup) []),
           close_driver s1))"

definition scrape_all_tools ::
  "'b browser \<Rightarrow> (nat \<Rightarrow> string) \<Rightarrow> 'b scraper \<Rightarrow> (exn + tool list) \<times> 'b scraper" where
  "scrape_all_tools drv clock s =
     (case load_page drv BASE_URL 100 s of
        (Inl e, s1) \<Rightarrow> (Inr [], close_driver s1)
      | (Inr soup, s1) \<Rightarrow>
          (Inr (parse_cards clock 0 (find_tool_cards soup) []), close_driver s1))"

text \<open>
  Calls made one after another on the same scraper object, as the module's \<open>__main__\<close>
  block does. Each call comes with the behaviour of the browser and of the clock during
  it.
\<close>

datatype request =
  Newly_added
| By_category "string list option" "string list option"
| All_tools

fun call :: "'b browser \<Rightarrow> (nat \<Rightarrow> string) \<Rightarrow> request \<Rightarrow> 'b scraper \<Rightarrow>
    (exn + tool list) \<times> 'b scraper" where
  "call drv clock Newly_added s = scrape_newly_added drv clock s"
| "call drv clock (By_category categories_arg pricing_filters) s =
     scrape_by_category drv clock categories_arg pricing_filters s"
| "call drv clock All_tools s = scrape_all_tools drv clock s"

fun calls :: "('b browser \<times> (nat \<Rightarrow> string) \<times> request) list \<Rightarrow> 'b scraper \<Rightarrow> 'b scraper" where
  "calls [] s = s"
| "calls ((drv, clock, req) # rest) s = calls rest (snd (call drv clock req s))"

section \<open>Notions used to state the properties\<close>

text \<open>A record without its timestamp.\<close>

definition untimed :: "tool \<Rightarrow> string \<times> string \<times> string \<times> string \<times> string" where
  "untimed r = (name r, description r, categories r, pricing r, url r)"

text \<open>
  The filter of \<open>scrape_by_category\<close> as the specification words it: a filter that is
  unset lets every record through, a filter that is set asks for one of the record's
  comma-split labels to be among the requested ones.
\<close>

definition spec_keeps :: "string list option \<Rightarrow> string list option \<Rightarrow> tool \<Rightarrow> bool" where
  "spec_keeps categories_arg pricing_filters r =
     ((case categories_arg of
         None \<Rightarrow> True
       | Some wanted \<Rightarrow> any_in wanted (split_comma [] (categories r))) \<and>
      (case pricing_filters of
         None \<Rightarrow> True
       | Some wanted \<Rightarrow> any_in wanted (split_comma [] (pricing r))))"

text \<open>
  The same with what the code adds: an empty list counts as unset, and so does the full
  list of known categories.
\<close>

definition keep_rule :: "string list option \<Rightarrow> string list option \<Rightarrow> tool \<Rightarrow> bool" where
  "keep_rule categories_arg pricing_filters r =
     ((case categories_arg of
         None \<Rightarrow> True
       | Some wanted \<Rightarrow>
           wanted = [] \<or> wanted = CATEGORIES \<or> any_in wanted (split_comma [] (categories r))) \<and>
      (case pricing_filters of
         None \<Rightarrow> True
       | Some wanted \<Rightarrow> wanted = [] \<or> any_in wanted (split_comma [] (pricing r))))"

text \<open>The number of scroll attempts in a list of events.\<close>

definition scroll_count :: "event list \<Rightarrow> nat" where
  "scroll_count tr = length (filter (\<lambda>ev. ev = Scrolled) tr)"

text \<open>
  No load-more control is clicked in this state: none is found, or the first one found
  is not displayed.
\<close>

definition first_control_hidden :: "'b browser \<Rightarrow> 'b \<Rightarrow> bool" where
  "first_control_hidden drv b =
     (case find_load_more drv b of
        None \<Rightarrow> False
      | Some [] \<Rightarrow> True
      | Some (button # others) \<Rightarrow> is_displayed button = Some False)"

definition first_control_shown :: "'b browser \<Rightarrow> 'b \<Rightarrow> bool" where
  "first_control_shown drv b =
     (case find_load_more drv b of
        None \<Rightarrow> False
      | Some [] \<Rightarrow> False
      | Some (button # others) \<Rightarrow> is_displayed button = Some True)"

section \<open>Example inputs\<close>

text \<open>
  A page that never grows and has no load-more control: every operation succeeds, the
  height is always the same, and the page source is \<open>soup\<close>.
\<close>

definition still_browser :: "document \<Rightarrow> unit browser" where
  "still_browser soup =
     \<lparr> launch = Some (),
       navigate = (\<lambda>target b. Some b),
       scroll_to_bottom = (\<lambda>b. Some b),
       scroll_height = (\<lambda>b. Some 1000),
       find_load_more = (\<lambda>b. Some []),
       click_first = (\<lambda>b. None),
       page_source = (\<lambda>b. Some soup) \<rparr>"

text \<open>A page whose cards are matched by the first selector.\<close>

definition page_of :: "card list \<Rightarrow> document" where
  "page_of cards =
     \<lparr> dyn_item_divs = cards, tool_card_divs = [], tool_item_divs = [],
       collection_item_divs = [], articles = [] \<rparr>"

text \<open>The browser cannot be started.\<close>

definition dead_browser :: "unit browser" where
  "dead_browser =
     \<lparr> launch = None,
       navigate = (\<lambda>target b. None),
       scroll_to_bottom = (\<lambda>b. None),
       scroll_height = (\<lambda>b. None),
       find_load_more = (\<lambda>b. None),
       click_first = (\<lambda>b. None),
       page_source = (\<lambda>b. None) \<rparr>"

text \<open>The browser starts, and no page can be reached.\<close>

definition offline_browser :: "unit browser" where
  "offline_browser = dead_browser\<lparr> launch := Some () \<rparr>"

text \<open>The page is reached, and every script raises.\<close>

definition crashing_browser :: "unit browser" where
  "crashing_browser = offline_browser\<lparr> navigate := (\<lambda>target b. Some b) \<rparr>"

text \<open>
  A page that never grows, with two load-more controls: the first is hidden, the second
  is displayed. The state counts the clicks.
\<close>

definition hidden_first_browser :: "nat browser" where
  "hidden_first_browser =
     \<lparr> launch = Some 0,
       navigate = (\<lambda>target b. Some b),
       scroll_to_bottom = (\<lambda>b. Some b),
       scroll_height = (\<lambda>b. Some 1000),
       find_load_more = (\<lambda>b. Some [Element (Some False), Element (Some True)]),
       click_first = (\<lambda>b. Some (Suc b)),
       page_source = (\<lambda>b. Some (page_of [])) \<rparr>"

text \<open>
  A page with one displayed load-more control; a click adds 500 to the height, and the
  state counts the clicks.
\<close>

definition load_more_browser :: "nat browser" where
  "load_more_browser =
     \<lparr> launch = Some 0,
       navigate = (\<lambda>target b. Some b),
       scroll_to_bottom = (\<lambda>b. Some b),
       scroll_height = (\<lambda>b. Some (1000 + 500 * int b)),
       find_load_more = (\<lambda>b. Some [Element (Some True)]),
       click_first = (\<lambda>b. Some (Suc b)),
       page_source = (\<lambda>b. Some (page_of [])) \<rparr>"

definition noon :: string where
  "noon = ''2024-01-01 12:00:00''"

text \<open>The card \<open><div class="tool w-dyn-item"><h3></h3></div>\<close>.\<close>

definition empty_heading_card :: card where
  "empty_heading_card = blank_card\<lparr> heading3 := Some [] \<rparr>"

definition trial_card :: card where
  "trial_card =
     blank_card\<lparr> heading3 := Some ''Tool'',
                 all_text := ''Freemium, free trial pricing available'' \<rparr>"

definition free_card :: card where
  "free_card =
     blank_card\<lparr> heading3 := Some ''Tool'', all_text := ''completely free to use'' \<rparr>"

definition chat_card :: card where
  "chat_card =
     blank_card\<lparr> title_link := Some ''Chatty'',
                 category_container := Some ([''Chat'', ''Productivity'', ''Chat''], []),
                 all_text := ''Chatty Chat Productivity Chat'' \<rparr>"

definition backwards_card :: card where
  "backwards_card =
     blank_card\<lparr> heading2 := Some ''Tool'',
                 all_text := ''On GitHub, open source. Freemium with a free trial; paid later'' \<rparr>"

definition broken_card :: card where
  "broken_card = blank_card\<lparr> faulty := True \<rparr>"

section \<open>Facts about the string operations\<close>

lemma contains_iff_sublist: "contains sub s \<longleftrightarrow> sublist sub s"
  by (induction s) (auto simp: sublist_Cons_right)

lemma join_nonempty: "ls \<noteq> [] \<Longrightarrow> [] \<notin> set ls \<Longrightarrow> join sep ls \<noteq> []"
  by (induction sep ls rule: join.induct) auto

lemma split_comma_plain:
  "CHR '','' \<notin> set l \<Longrightarrow> split_comma cur l = [cur @ l]"
proof (induction l arbitrary: cur)
  case Nil
  then show ?case by simp
next
  case (Cons x xs)
  then show ?case by (cases xs) auto
qed

lemma split_comma_piece:
  "CHR '','' \<notin> set l \<Longrightarrow> split_comma cur (l @ '', '' @ rest) = (cur @ l) # split_comma [] rest"
proof (induction l arbitrary: cur)
  case Nil
  then show ?case by simp
next
  case (Cons x xs)
  then show ?case by (cases xs) auto
qed

lemma split_comma_join:
  "ls \<noteq> [] \<Longrightarrow> \<forall>l \<in> set ls. CHR '','' \<notin> set l \<Longrightarrow> split_comma [] (join '', '' ls) = ls"
proof (induction "'', ''" ls rule: join.induct)
  case 1
  then show ?case by simp
next
  case (2 x)
  then show ?case by (simp add: split_comma_plain)
next
  case (3 x y ys)
  then have "split_comma [] (join '', '' (y # ys)) = y # ys" by simp
  moreover from 3 have "CHR '','' \<notin> set x" by simp
  ultimately show ?case
    using split_comma_piece [of x "[]" "join '', '' (y # ys)"] by simp
qed

section \<open>Facts about the extraction of one card\<close>

lemma parse_tool_card_Some:
  "parse_tool_card now c = Some r \<longleftrightarrow>
     \<not> faulty c \<and>
     (\<exists>name_text. find_name_elem c = Some name_text \<and>
        r = \<lparr> name = name_text, description = extract_description c,
              categories = categories_field (extract_categories c),
              pricing = pricing_field (extract_pricing c),
              url = extract_url c, scraped_at = now \<rparr>)"
  by (auto simp: parse_tool_card_def parse_tool_card_body_def split: option.splits)

lemma parse_tool_card_fields:
  assumes "parse_tool_card now c = Some r"
  shows "name r = the (find_name_elem c)"
    and "categories r = categories_field (extract_categories c)"
    and "pricing r = pricing_field (extract_pricing c)"
  using assms by (auto simp: parse_tool_card_Some)

lemma add_category_divs_nonempty:
  "[] \<notin> set cats \<Longrightarrow> [] \<notin> set (add_category_divs xs cats)"
proof (induction xs arbitrary: cats)
  case Nil
  then show ?case by simp
next
  case (Cons x xs)
  show ?case
  proof (cases "x \<noteq> [] \<and> x \<notin> set cats")
    case True
    with Cons.prems have "[] \<notin> set (cats @ [x])" by auto
    from Cons.IH [OF this] True show ?thesis by simp
  next
    case False
    with Cons.IH [OF Cons.prems] show ?thesis by auto
  qed
qed

lemma add_category_links_nonempty:
  "[] \<notin> set cats \<Longrightarrow> [] \<notin> set (add_category_links xs cats)"
proof (induction xs arbitrary: cats)
  case Nil
  then show ?case by simp
next
  case (Cons x xs)
  show ?case
  proof (cases "x \<noteq> [] \<and> x \<notin> set ['''', ''category''] \<and> x \<notin> set cats")
    case True
    with Cons.prems have "[] \<notin> set (cats @ [x])" by auto
    from Cons.IH [OF this] True show ?thesis by simp
  next
    case False
    with Cons.IH [OF Cons.prems] show ?thesis by auto
  qed
qed

lemma extract_categories_nonempty: "[] \<notin> set (extract_categories c)"
  using add_category_divs_nonempty[of "[]"] add_category_links_nonempty[of "[]"]
  by (simp add: extract_categories_def Let_def split: option.splits)

lemma match_keywords_append:
  "distinct (map snd kws) \<Longrightarrow> set (map snd kws) \<inter> set found = {} \<Longrightarrow>
   match_keywords txt kws found =
     found @ map snd (filter (\<lambda>(keyword, label). contains keyword txt) kws)"
proof (induction kws arbitrary: found)
  case Nil
  then show ?case by simp
next
  case (Cons kw kws)
  obtain keyword label where kw: "kw = (keyword, label)" by (cases kw)
  from Cons.prems kw have fresh: "label \<notin> set found" and d: "distinct (map snd kws)"
    and l: "label \<notin> set (map snd kws)" and dis: "set (map snd kws) \<inter> set found = {}"
    by auto
  show ?case
  proof (cases "contains keyword txt")
    case True
    from l dis have "set (map snd kws) \<inter> set (found @ [label]) = {}" by auto
    with Cons.IH [OF d] True fresh kw show ?thesis by simp
  next
    case False
    with Cons.IH [OF d dis] kw show ?thesis by simp
  qed
qed

lemma pricing_keywords_labels:
  "map snd pricing_keywords = [''Paid'', ''Free Trial'', ''Freemium'', ''Open Source'', ''GitHub'']"
  by (simp add: pricing_keywords_def)

lemma match_keywords_present:
  "match_keywords txt pricing_keywords [] =
     map snd (filter (\<lambda>(keyword, label). contains keyword txt) pricing_keywords)"
  by (simp add: match_keywords_append pricing_keywords_labels)

lemma present_labels_subset:
  "set (map snd (filter P pricing_keywords)) \<subseteq> set (map snd pricing_keywords)"
  by auto

lemma extract_pricing_cases:
  "extract_pricing c =
     (let txt = lower (all_text c);
          present = map snd (filter (\<lambda>(keyword, label). contains keyword txt) pricing_keywords)
      in if present \<noteq> [] then present
         else if contains ''free'' txt \<and> \<not> contains ''free trial'' txt then [''Free''] else [])"
  by (simp add: extract_pricing_def Let_def match_keywords_present)

lemma extract_pricing_vocabulary: "set (extract_pricing c) \<subseteq> set PRICING_LABELS"
proof -
  have "set (map snd pricing_keywords) \<subseteq> set PRICING_LABELS"
    by (simp add: pricing_keywords_labels PRICING_LABELS_def)
  moreover have "''Free'' \<in> set PRICING_LABELS"
    by (simp add: PRICING_LABELS_def)
  ultimately show ?thesis
    using present_labels_subset [of "\<lambda>(keyword, label). contains keyword (lower (all_text c))"]
    unfolding extract_pricing_cases Let_def
    by (auto simp del: set_map)
qed

lemma no_keyword_present:
  "(map snd (filter (\<lambda>(keyword, label). contains keyword txt) pricing_keywords) = []) =
     (\<not> contains ''paid'' txt \<and> \<not> contains ''free trial'' txt \<and> \<not> contains ''freemium'' txt \<and>
      \<not> contains ''open source'' txt \<and> \<not> contains ''github'' txt)"
  by (simp add: pricing_keywords_def filter_empty_conv)

lemma free_in_extract_pricing:
  "''Free'' \<in> set (extract_pricing c) \<longleftrightarrow>
     (let txt = lower (all_text c) in
        \<not> contains ''paid'' txt \<and> \<not> contains ''free trial'' txt \<and> \<not> contains ''freemium'' txt \<and>
        \<not> contains ''open source'' txt \<and> \<not> contains ''github'' txt \<and>
        contains ''free'' txt \<and> \<not> contains ''free trial'' txt)"
proof -
  have "''Free'' \<notin> set (map snd pricing_keywords)"
    by (simp add: pricing_keywords_labels)
  with present_labels_subset [of "\<lambda>(keyword, label). contains keyword (lower (all_text c))"]
  have nf: "''Free'' \<notin> set (map snd (filter (\<lambda>(keyword, label). contains keyword (lower (all_text c))) pricing_keywords))"
    by blast
  show ?thesis
    unfolding extract_pricing_cases Let_def
    using nf no_keyword_present [of "lower (all_text c)"]
    by (auto simp del: set_map)
qed

lemma free_in_pricing_field:
  "''Free'' \<in> set (split_comma [] (pricing_field (extract_pricing c))) \<longleftrightarrow>
     ''Free'' \<in> set (extract_pricing c)"
proof (cases "extract_pricing c = []")
  case True
  then show ?thesis by (simp add: pricing_field_def)
next
  case False
  have "\<forall>l \<in> set PRICING_LABELS. CHR '','' \<notin> set l"
    by (simp add: PRICING_LABELS_def)
  with extract_pricing_vocabulary [of c]
  have "\<forall>l \<in> set (extract_pricing c). CHR '','' \<notin> set l" by blast
  with False show ?thesis by (simp add: pricing_field_def split_comma_join)
qed

lemma parse_tool_card_no_name:
  "find_name_elem c = None \<Longrightarrow> parse_tool_card now c = None"
  by (simp add: parse_tool_card_def parse_tool_card_body_def)

section \<open>Facts about the example page\<close>

lemma still_scroll: "scroll_to_load_all (still_browser soup) 10 () = ([Scrolled, Scrolled, Scrolled], Some ())"
  by (simp add: scroll_to_load_all_def still_browser_def scroll_loop.simps try_load_more_def)

lemma still_scroll100: "scroll_to_load_all (still_browser soup) 100 () = ([Scrolled, Scrolled, Scrolled], Some ())"
  by (simp add: scroll_to_load_all_def still_browser_def scroll_loop.simps try_load_more_def)

lemma still_load_page:
  "max_scrolls = 10 \<or> max_scrolls = 100 \<Longrightarrow> load_page (still_browser soup) target max_scrolls init =
     (Inr soup, \<lparr> driver = Some (), started = 1, stopped = 0 \<rparr>)"
  using still_scroll[of soup] still_scroll100[of soup]
  by (auto simp add: load_page_def init_def still_browser_def)


section \<open>The name of a record\<close>

text \<open>
  Claim C1: a card without a derivable name gives no record, and every record has a name
  that is not empty. The first half holds (\<open>parse_tool_card_no_name\<close>). The second
  fails: the test \<open>if name_elem\<close> asks whether an element was found, not whether it has
  text, so a card whose only heading is \<open><h3></h3>\<close> gives a record with the name
  \<open>""\<close>, and \<open>scrape_newly_added\<close> returns it.
\<close>

theorem empty_heading_gives_empty_name:
  "parse_tool_card noon empty_heading_card =
     Some \<lparr> name = [], description = [], categories = ''Uncategorized'',
            pricing = ''Check tool page'', url = [], scraped_at = noon \<rparr> \<and>
   fst (scrape_newly_added (still_browser (page_of [empty_heading_card])) (\<lambda>i. noon) init) =
     Inr [\<lparr> name = [], description = [], categories = ''Uncategorized'',
            pricing = ''Check tool page'', url = [], scraped_at = noon \<rparr>]"
proof -
  have card: "parse_tool_card noon empty_heading_card =
     Some \<lparr> name = [], description = [], categories = ''Uncategorized'',
            pricing = ''Check tool page'', url = [], scraped_at = noon \<rparr>"
    by code_simp
  then show ?thesis
    by (simp add: scrape_newly_added_def still_load_page find_tool_cards_def page_of_def)
qed

section \<open>The pricing field\<close>

lemma trial_card_keywords:
  "contains ''freemium'' (lower (all_text trial_card))"
  "contains ''free trial'' (lower (all_text trial_card))"
  "\<not> contains ''paid'' (lower (all_text trial_card))"
  "\<not> contains ''open source'' (lower (all_text trial_card))"
  "\<not> contains ''github'' (lower (all_text trial_card))"
  by code_simp+

lemma trial_card_parsed:
  "parse_tool_card noon trial_card =
     Some \<lparr> name = ''Tool'', description = [], categories = ''Uncategorized'',
            pricing = pricing_field (extract_pricing trial_card), url = [], scraped_at = noon \<rparr>"
  by (simp add: parse_tool_card_def parse_tool_card_body_def trial_card_def
      blank_card_def find_name_elem_def extract_description_def extract_categories_def
      extract_url_def categories_field_def)

text \<open>
  Claim C3, as amended: a card whose lower-cased text contains \<open>freemium\<close> and
  \<open>free trial\<close> and none of \<open>paid\<close>, \<open>open source\<close>, \<open>github\<close> gets the pricing
  \<open>Free Trial, Freemium\<close>: both labels, in the order of the keyword dictionary, and no
  \<open>Free\<close>.
\<close>

theorem freemium_and_trial_pricing:
  assumes "parse_tool_card now c = Some r"
    and "contains ''freemium'' (lower (all_text c))"
    and "contains ''free trial'' (lower (all_text c))"
    and "\<not> contains ''paid'' (lower (all_text c))"
    and "\<not> contains ''open source'' (lower (all_text c))"
    and "\<not> contains ''github'' (lower (all_text c))"
  shows "pricing r = ''Free Trial, Freemium''"
proof -
  from assms(2-6) have "extract_pricing c = [''Free Trial'', ''Freemium'']"
    by (simp add: extract_pricing_cases pricing_keywords_def)
  with parse_tool_card_fields(3) [OF assms(1)] show ?thesis
    by (simp add: pricing_field_def)
qed

theorem freemium_and_trial_pricing_witness:
  "\<exists>r. parse_tool_card noon trial_card = Some r \<and>
       contains ''freemium'' (lower (all_text trial_card)) \<and>
       contains ''free trial'' (lower (all_text trial_card)) \<and>
       \<not> contains ''paid'' (lower (all_text trial_card)) \<and>
       \<not> contains ''open source'' (lower (all_text trial_card)) \<and>
       \<not> contains ''github'' (lower (all_text trial_card)) \<and>
       pricing r = ''Free Trial, Freemium''"
  using freemium_and_trial_pricing [OF trial_card_parsed] trial_card_parsed trial_card_keywords
  by simp

text \<open>
  The claim asks for \<open>Freemium, Free Trial\<close>. On the card with the text
  \<open>Freemium, free trial pricing available\<close> the result is \<open>Free Trial, Freemium\<close>.
\<close>

theorem freemium_trial_order_counterexample:
  "parse_tool_card noon trial_card =
     Some \<lparr> name = ''Tool'', description = [], categories = ''Uncategorized'',
            pricing = ''Free Trial, Freemium'', url = [], scraped_at = noon \<rparr> \<and>
   contains ''freemium'' (lower (all_text trial_card)) \<and>
   contains ''free trial'' (lower (all_text trial_card)) \<and>
   \<not> contains ''paid'' (lower (all_text trial_card)) \<and>
   \<not> contains ''open source'' (lower (all_text trial_card)) \<and>
   \<not> contains ''github'' (lower (all_text trial_card)) \<and>
   ''Free Trial, Freemium'' \<noteq> ''Freemium, Free Trial''"
  by code_simp

lemma free_card_facts:
  "lower (all_text free_card) = ''completely free to use''"
  "find_name_elem free_card = Some ''Tool''"
  "\<not> faulty free_card"
  by code_simp+

lemma free_card_keywords:
  "\<not> contains ''paid'' ''completely free to use''"
  "\<not> contains ''free trial'' ''completely free to use''"
  "\<not> contains ''freemium'' ''completely free to use''"
  "\<not> contains ''open source'' ''completely free to use''"
  "\<not> contains ''github'' ''completely free to use''"
  "contains ''free'' ''completely free to use''"
  by code_simp+

lemma free_card_parsed:
  "parse_tool_card noon free_card =
     Some \<lparr> name = ''Tool'', description = extract_description free_card,
            categories = categories_field (extract_categories free_card),
            pricing = pricing_field (extract_pricing free_card),
            url = extract_url free_card, scraped_at = noon \<rparr>"
  by (simp add: parse_tool_card_Some free_card_facts)

text \<open>
  Claim C4: \<open>Free\<close> is among the pricing labels of a card exactly when none of the five
  keywords occurs in its lower-cased text, \<open>free\<close> occurs in it and \<open>free trial\<close> does
  not. This is so for the list of labels and for the labels read back from the pricing
  field of the record. A card whose text is \<open>completely free to use\<close> gets the pricing
  \<open>Free\<close>.
\<close>

theorem free_label_rule:
  assumes "parse_tool_card now c = Some r"
  shows "(let txt = lower (all_text c);
              rule = (\<not> contains ''paid'' txt \<and> \<not> contains ''free trial'' txt \<and>
                      \<not> contains ''freemium'' txt \<and> \<not> contains ''open source'' txt \<and>
                      \<not> contains ''github'' txt \<and>
                      contains ''free'' txt \<and> \<not> contains ''free trial'' txt)
          in (''Free'' \<in> set (extract_pricing c)) = rule \<and>
             (''Free'' \<in> set (split_comma [] (pricing r))) = rule \<and>
             (txt = ''completely free to use'' \<longrightarrow> pricing r = ''Free''))"
proof -
  let ?txt = "lower (all_text c)"
  have p: "pricing r = pricing_field (extract_pricing c)"
    using parse_tool_card_fields(3) [OF assms] .
  have a: "(''Free'' \<in> set (extract_pricing c)) =
      (\<not> contains ''paid'' ?txt \<and> \<not> contains ''free trial'' ?txt \<and>
       \<not> contains ''freemium'' ?txt \<and> \<not> contains ''open source'' ?txt \<and>
       \<not> contains ''github'' ?txt \<and> contains ''free'' ?txt \<and> \<not> contains ''free trial'' ?txt)"
    using free_in_extract_pricing [of c] by (simp add: Let_def)
  have b: "(''Free'' \<in> set (split_comma [] (pricing r))) = (''Free'' \<in> set (extract_pricing c))"
    using free_in_pricing_field [of c] p by simp
  have c: "pricing r = ''Free''" if "?txt = ''completely free to use''"
  proof -
    from that have "extract_pricing c = [''Free'']"
      using no_keyword_present [of "''completely free to use''"] free_card_keywords
      by (simp add: extract_pricing_cases Let_def)
    with p show ?thesis by (simp add: pricing_field_def)
  qed
  from a b c show ?thesis by (simp add: Let_def)
qed

theorem free_label_rule_witness:
  "\<exists>r. parse_tool_card noon free_card = Some r \<and>
       lower (all_text free_card) = ''completely free to use'' \<and>
       ''Free'' \<in> set (extract_pricing free_card) \<and>
       ''Free'' \<in> set (split_comma [] (pricing r)) \<and>
       pricing r = ''Free''"
  using free_label_rule [OF free_card_parsed] free_card_parsed free_card_keywords
  by (simp add: free_card_facts Let_def)

lemma chat_card_parsed:
  "parse_tool_card noon chat_card =
     Some \<lparr> name = ''Chatty'', description = [], categories = ''Chat, Productivity'',
            pricing = ''Check tool page'', url = [], scraped_at = noon \<rparr>"
  by code_simp

text \<open>
  Claim C5: in every record, \<open>categories\<close> is a comma-joined list, not empty, of labels
  that are not empty, or it is \<open>Uncategorized\<close>; \<open>pricing\<close> is a comma-joined list, not
  empty, of labels of the fixed vocabulary, or it is \<open>Check tool page\<close>; neither field is
  the empty string.
\<close>

theorem categories_and_pricing_fields:
  assumes "parse_tool_card now c = Some r"
  shows "((\<exists>ls. ls \<noteq> [] \<and> [] \<notin> set ls \<and> categories r = join '', '' ls) \<or>
          categories r = ''Uncategorized'') \<and>
         ((\<exists>ls. ls \<noteq> [] \<and> set ls \<subseteq> set PRICING_LABELS \<and> pricing r = join '', '' ls) \<or>
          pricing r = ''Check tool page'') \<and>
         categories r \<noteq> [] \<and> pricing r \<noteq> []"
proof -
  have cf: "categories r = categories_field (extract_categories c)"
    and pf: "pricing r = pricing_field (extract_pricing c)"
    using parse_tool_card_fields [OF assms] by simp_all
  have c1: "(\<exists>ls. ls \<noteq> [] \<and> [] \<notin> set ls \<and> categories r = join '', '' ls) \<or>
      categories r = ''Uncategorized''"
    using cf extract_categories_nonempty [of c]
    by (cases "extract_categories c = []") (auto simp: categories_field_def)
  have c2: "(\<exists>ls. ls \<noteq> [] \<and> set ls \<subseteq> set PRICING_LABELS \<and> pricing r = join '', '' ls) \<or>
      pricing r = ''Check tool page''"
    using pf extract_pricing_vocabulary [of c]
    by (cases "extract_pricing c = []") (auto simp: pricing_field_def simp del: set_map)
  have c3: "categories r \<noteq> []"
    using cf extract_categories_nonempty [of c] join_nonempty [of "extract_categories c" "'', ''"]
    by (cases "extract_categories c = []") (auto simp: categories_field_def)
  have "[] \<notin> set PRICING_LABELS" by (simp add: PRICING_LABELS_def)
  with extract_pricing_vocabulary [of c] have "[] \<notin> set (extract_pricing c)" by blast
  then have c4: "pricing r \<noteq> []"
    using pf join_nonempty [of "extract_pricing c" "'', ''"]
    by (cases "extract_pricing c = []") (auto simp: pricing_field_def)
  from c1 c2 c3 c4 show ?thesis by blast
qed

theorem categories_and_pricing_fields_witness:
  "\<exists>r. parse_tool_card noon chat_card = Some r \<and>
       categories r = ''Chat, Productivity'' \<and> pricing r = ''Check tool page'' \<and>
       categories r \<noteq> [] \<and> pricing r \<noteq> []"
  using categories_and_pricing_fields [OF chat_card_parsed] chat_card_parsed
  by simp

lemma backwards_card_parsed:
  "parse_tool_card noon backwards_card =
     Some \<lparr> name = ''Tool'', description = [], categories = ''Uncategorized'',
            pricing = ''Paid, Free Trial, Freemium, Open Source, GitHub'', url = [],
            scraped_at = noon \<rparr>"
  by code_simp

lemma backwards_card_present:
  "map snd (filter (\<lambda>(keyword, label). contains keyword (lower (all_text backwards_card)))
      pricing_keywords) = [''Paid'', ''Free Trial'', ''Freemium'', ''Open Source'', ''GitHub'']"
  by code_simp

text \<open>
  Claim C10: the labels matched by a keyword stand in the order of the keyword
  dictionary: Paid, Free Trial, Freemium, Open Source, GitHub. The pricing field is the
  join of the dictionary's labels filtered by which keywords occur in the text, so where
  they occur plays no part; when no keyword occurs the field is \<open>Free\<close> or the sentinel.
\<close>

theorem pricing_labels_in_keyword_order:
  assumes "parse_tool_card now c = Some r"
  shows "(let present = map snd (filter (\<lambda>(keyword, label). contains keyword (lower (all_text c)))
                                   pricing_keywords)
          in subseq present [''Paid'', ''Free Trial'', ''Freemium'', ''Open Source'', ''GitHub''] \<and>
             (if present \<noteq> [] then pricing r = join '', '' present
              else pricing r = ''Free'' \<or> pricing r = ''Check tool page''))"
proof -
  define present where
    "present = map snd (filter (\<lambda>(keyword, label). contains keyword (lower (all_text c)))
                          pricing_keywords)"
  have "subseq present (map snd pricing_keywords)"
    unfolding present_def by (intro subseq_map subseq_filter_left)
  then have s: "subseq present [''Paid'', ''Free Trial'', ''Freemium'', ''Open Source'', ''GitHub'']"
    by (simp only: pricing_keywords_labels)
  have pf: "pricing r = pricing_field (extract_pricing c)"
    using parse_tool_card_fields(3) [OF assms] .
  have e: "extract_pricing c =
      (if present \<noteq> [] then present
       else if contains ''free'' (lower (all_text c)) \<and> \<not> contains ''free trial'' (lower (all_text c))
            then [''Free''] else [])"
    unfolding present_def using extract_pricing_cases [of c] by (simp only: Let_def)
  have "if present \<noteq> [] then pricing r = join '', '' present
        else pricing r = ''Free'' \<or> pricing r = ''Check tool page''"
    using e pf by (auto simp: pricing_field_def)
  with s have "subseq present [''Paid'', ''Free Trial'', ''Freemium'', ''Open Source'', ''GitHub''] \<and>
      (if present \<noteq> [] then pricing r = join '', '' present
       else pricing r = ''Free'' \<or> pricing r = ''Check tool page'')"
    by (rule conjI)
  then show ?thesis unfolding present_def Let_def .
qed

theorem pricing_labels_in_keyword_order_witness:
  "\<exists>r. parse_tool_card noon backwards_card = Some r \<and>
       all_text backwards_card = ''On GitHub, open source. Freemium with a free trial; paid later'' \<and>
       pricing r = ''Paid, Free Trial, Freemium, Open Source, GitHub''"
  using pricing_labels_in_keyword_order [OF backwards_card_parsed] backwards_card_parsed
  by (simp add: backwards_card_present backwards_card_def)


end
